theory Spec2Isabelle
  imports Complex_Main
begin

section \<open>Numbers\<close>

text \<open>
  The program computes with JavaScript numbers, which are doubles. The model takes the
  finite numbers as \<^typ>\<open>real\<close>: a real stands for the double it rounds to. Rounding is
  not modelled, and \<open>1.0 / 15\<close>, \<open>0.1\<close> and \<open>0.8\<close> are the exact fractions; nor is the range
  of the doubles, so a real beyond it stands for an infinity, and the model does not tell.
  Infinite and NaN arguments are not modelled.

  Where the source divides without testing the divisor, the quotient is a \<open>jsnum\<close>, which
  sets apart what a division by zero returns: \<open>PosInfinity\<close>, \<open>NegInfinity\<close> and \<open>NaN\<close> are
  the values of \<open>a / 0\<close> for a positive, a negative and a zero \<open>a\<close>; \<open>Num q\<close> is any other
  number, of exact value \<open>q\<close>. So \<open>Num q\<close> says that no division by zero has produced
  the number, not how large the number is. The only divisor of that kind in the program
  is a difference \<open>t - t'\<close> of two clock readings, which is \<open>+0\<close> when it vanishes, so the
  sign of the infinity is the sign of the dividend. Every other divisor is a constant of
  the program that is not zero, or has one as its only value (the width of a domain of
  \<open>remap\<close>, the \<open>scale\<close> 1000 of a spring, twice the \<open>RADIUS\<close>); there the quotient is
  the quotient of the reals.
\<close>

datatype jsnum = Num real | PosInfinity | NegInfinity | NaN

definition js_div :: "real \<Rightarrow> real \<Rightarrow> jsnum" where
  "js_div a b =
     (if b \<noteq> 0 then Num (a / b)
      else if 0 < a then PosInfinity
      else if a < 0 then NegInfinity
      else NaN)"

text \<open>The values that only a division by zero returns.\<close>

fun zero_division :: "jsnum \<Rightarrow> bool" where
  "zero_division (Num _) = False"
| "zero_division _ = True"

section \<open>Geometry (util.ts and the CoreGraphics functions it calls)\<close>

text \<open>
  \<open>CGPoint\<close> has the fields \<open>x\<close> and \<open>y\<close> (here \<open>px\<close>, \<open>py\<close>), \<open>CGRect\<close> the fields
  \<open>origin\<close> and \<open>size\<close> (here \<open>rsize\<close>, since \<open>size\<close> is a constant of HOL).
\<close>

record CGPoint =
  px :: real
  py :: real

record CGVector =
  dx :: real
  dy :: real

record CGSize =
  width :: real
  height :: real

record CGRect =
  origin :: CGPoint
  rsize :: CGSize

definition CGPointZero :: CGPoint where
  "CGPointZero = \<lparr>px = 0, py = 0\<rparr>"

text \<open>
  \<open>CGRectGetMinX\<close> and its siblings belong to CoreGraphics, not to the repository. They are
  modelled as documented there: the smallest, the largest and the middle coordinate of the
  rectangle, also when a width or height is negative.
\<close>

definition CGRectGetMinX :: "CGRect \<Rightarrow> real" where
  "CGRectGetMinX r = min (px (origin r)) (px (origin r) + width (rsize r))"

definition CGRectGetMaxX :: "CGRect \<Rightarrow> real" where
  "CGRectGetMaxX r = max (px (origin r)) (px (origin r) + width (rsize r))"

definition CGRectGetMidX :: "CGRect \<Rightarrow> real" where
  "CGRectGetMidX r = px (origin r) + width (rsize r) / 2"

definition CGRectGetMinY :: "CGRect \<Rightarrow> real" where
  "CGRectGetMinY r = min (py (origin r)) (py (origin r) + height (rsize r))"


definition CGRectGetMidY :: "CGRect \<Rightarrow> real" where
  "CGRectGetMidY r = py (origin r) + height (rsize r) / 2"

definition RADIUS :: real where
  "RADIUS = 100"




text \<open>\<open>remap\<close> with its default \<open>clamp = true\<close> is \<open>remap\<close>; the flag is the first argument of \<open>remap_flag\<close>.\<close>

definition remap_flag :: "bool \<Rightarrow> real \<Rightarrow> real \<Rightarrow> real \<Rightarrow> real \<Rightarrow> real \<Rightarrow> real" where
  "remap_flag clamp v domainStart domainEnd rangeStart rangeEnd =
     (let domain = domainEnd - domainStart;
          range = rangeEnd - rangeStart;
          value = (v - domainStart) / domain;
          result = rangeStart + value * range
      in if clamp then
           (if rangeStart < rangeEnd then min (max result rangeStart) rangeEnd
            else min (max result rangeEnd) rangeStart)
         else result)"

definition remap :: "real \<Rightarrow> real \<Rightarrow> real \<Rightarrow> real \<Rightarrow> real \<Rightarrow> real" where
  "remap = remap_flag True"

section \<open>The scalar velocity tracker (motion.ts)\<close>

text \<open>
  \<open>Sample.value\<close> is \<open>sample_value\<close>. Every call of \<open>CACurrentMediaTime()\<close> is an argument
  of the model, in the order of the calls.
\<close>

record Sample =
  time :: real
  sample_value :: real

record VelocityTracker =
  samples :: "Sample list"
  lookBack :: real

definition VelocityTracker_new :: VelocityTracker where
  "VelocityTracker_new = \<lparr>samples = [], lookBack = 1 / 15\<rparr>"

fun trim_loop :: "real \<Rightarrow> real \<Rightarrow> Sample list \<Rightarrow> Sample list" where
  "trim_loop now lb [] = []"
| "trim_loop now lb (s # ss) = (if now - time s > lb then trim_loop now lb ss else s # ss)"

definition trim :: "real \<Rightarrow> VelocityTracker \<Rightarrow> VelocityTracker" where
  "trim now tr = tr\<lparr>samples := trim_loop now (lookBack tr) (samples tr)\<rparr>"

definition addSample :: "real \<Rightarrow> real \<Rightarrow> real \<Rightarrow> VelocityTracker \<Rightarrow> VelocityTracker" where
  "addSample tPush tTrim val tr =
     trim tTrim (tr\<lparr>samples := samples tr @ [\<lparr>time = tPush, sample_value = val\<rparr>]\<rparr>)"

text \<open>
  The getter trims first, so it returns the velocity and the tracker it leaves. An empty
  array has no \<open>samples[0]\<close>, and the test of the two elements fails; otherwise both are
  objects, and the test holds.
\<close>

definition velocity :: "real \<Rightarrow> real \<Rightarrow> VelocityTracker \<Rightarrow> jsnum \<times> VelocityTracker" where
  "velocity tTrim tNow tr =
     (let tr' = trim tTrim tr in
      (case samples tr' of
         [] \<Rightarrow> Num 0
       | s0 # _ \<Rightarrow>
           (let timeDelta = tNow - time s0;
                distDelta = sample_value (last (samples tr')) - sample_value s0
            in if timeDelta > 0 then js_div distDelta timeDelta else Num 0),
       tr'))"

section \<open>The point velocity tracker (view_controller.ts)\<close>

text \<open>
  The second \<open>Sample\<close> and \<open>VelocityTracker\<close> of the repository, over points: here
  \<open>PointSample\<close> (fields \<open>ptime\<close>, \<open>pos\<close>) and \<open>PointVelocityTracker\<close> (field \<open>psamples\<close>).
\<close>

record PointSample =
  ptime :: real
  pos :: CGPoint

record PointVelocityTracker =
  psamples :: "PointSample list"

definition filteredSamples :: "real \<Rightarrow> PointVelocityTracker \<Rightarrow> PointSample list" where
  "filteredSamples now tr = filter (\<lambda>sample. now - ptime sample < 0.1) (psamples tr)"

definition add :: "real \<Rightarrow> real \<Rightarrow> CGPoint \<Rightarrow> PointVelocityTracker \<Rightarrow> PointVelocityTracker" where
  "add tPush tFilter p tr =
     (let tr1 = tr\<lparr>psamples := psamples tr @ [\<lparr>ptime = tPush, pos = p\<rparr>]\<rparr>
      in tr1\<lparr>psamples := filteredSamples tFilter tr1\<rparr>)"

text \<open>
  The point tracker divides by \<open>last.time - first.time\<close> without a test; its velocity is a
  pair of \<open>jsnum\<close>.
\<close>

definition point_velocity :: "real \<Rightarrow> PointVelocityTracker \<Rightarrow> jsnum \<times> jsnum" where
  "point_velocity now tr =
     (let ss = filteredSamples now tr in
      if length ss < 2 then (Num (px CGPointZero), Num (py CGPointZero))
      else
        (let first = hd ss;
             lst = last ss;
             delta = \<lparr>px = px (pos lst) - px (pos first), py = py (pos lst) - py (pos first)\<rparr>;
             t = ptime lst - ptime first
         in (js_div (px delta) t, js_div (py delta) t)))"

section \<open>The spring animation (motion.ts)\<close>

record SpringParams =
  response :: real
  dampingRatio :: real
  epsilon :: real

text \<open>The constructor of \<open>SpringParams\<close>, with its default \<open>epsilon = 0.01\<close>.\<close>

definition SpringParams_new :: "real \<Rightarrow> real \<Rightarrow> SpringParams" where
  "SpringParams_new r d = \<lparr>response = r, dampingRatio = d, epsilon = 0.01\<rparr>"

definition passiveEase :: SpringParams where
  "passiveEase = SpringParams_new 0.35 0.85"

text \<open>
  The solver is \<open>animate\<close> of the popmotion package, which is not part of the repository.
  What the program hands to it is a \<open>SpringOptions\<close>. Of the package the model keeps what
  its documentation states: \<open>animate\<close> creates an animation, starts the driver it was
  given and returns a \<open>stop\<close> that stops that driver; on a tick of the driver the
  animation computes its next state, calls \<open>onUpdate\<close> with the new value alone, and when
  that state is the last one it stops the driver and calls \<open>onComplete\<close>.

  \<open>Motion\<close> is the state shared by all spring animations: the animations created so far
  (an animation is its index in \<open>animations\<close>) and the \<open>CALayerDriver\<close> singleton with its
  set of \<open>tickers\<close> and its \<open>displayLink\<close> (\<open>True\<close> when it is defined). \<open>prevTick\<close> only
  feeds the time step of the solver and is left out, with \<open>CALayerDriver.tick\<close>: what the
  solver computes on a tick is an input of the model, a \<open>SolverOutput\<close>.
\<close>

record SpringOptions =
  opt_from :: real
  opt_to :: real
  opt_velocity :: real
  opt_stiffness :: real
  opt_damping :: real
  opt_restDelta :: real

record Motion =
  animations :: "SpringOptions list"
  tickers :: "nat list"
  displayLink :: bool

definition Motion_init :: Motion where
  "Motion_init = \<lparr>animations = [], tickers = [], displayLink = False\<rparr>"

definition CALayerDriver_start :: "Motion \<Rightarrow> Motion" where
  "CALayerDriver_start m = (if displayLink m then m else m\<lparr>displayLink := True\<rparr>)"

definition CALayerDriver_stop :: "Motion \<Rightarrow> Motion" where
  "CALayerDriver_stop m = (if \<not> displayLink m then m else m\<lparr>displayLink := False\<rparr>)"

text \<open>The \<open>start\<close> and \<open>stop\<close> of the driver controls that \<open>CALayerDriver.driver\<close> returns for ticker \<open>i\<close>.\<close>

definition driver_start :: "nat \<Rightarrow> Motion \<Rightarrow> Motion" where
  "driver_start i m =
     (let m1 = m\<lparr>tickers := (if i \<in> set (tickers m) then tickers m else tickers m @ [i])\<rparr>
      in if length (tickers m1) = 1 then CALayerDriver_start m1 else m1)"

definition driver_stop :: "nat \<Rightarrow> Motion \<Rightarrow> Motion" where
  "driver_stop i m =
     (if i \<notin> set (tickers m) then m
      else
        (let m1 = m\<lparr>tickers := removeAll i (tickers m)\<rparr>
         in if length (tickers m1) = 0 then CALayerDriver_stop m1 else m1))"

definition animate :: "SpringOptions \<Rightarrow> Motion \<Rightarrow> nat \<times> Motion" where
  "animate opts m =
     (let i = length (animations m)
      in (i, driver_start i (m\<lparr>animations := animations m @ [opts]\<rparr>)))"

text \<open>
  \<open>_value\<close> and \<open>_velocity\<close> are \<open>value'\<close> and \<open>velocity'\<close>. \<open>stopFunction\<close> holds the animation
  whose \<open>stop\<close> it is. \<open>onChange\<close> says whether an observer is set; \<open>notified\<close> is not a field
  of the class but the list of the values the observer has been called with.
\<close>

record SpringAnimation =
  animating :: bool
  externallySetVelocityTracker :: VelocityTracker
  onChange :: bool
  notified :: "real list"
  value' :: real
  targetValue :: "real option"
  velocity' :: "real option"
  stopFunction :: "nat option"
  scale :: real
  params :: SpringParams

definition stop :: "SpringAnimation \<times> Motion \<Rightarrow> SpringAnimation \<times> Motion" where
  "stop sm =
     (case sm of (s, m) \<Rightarrow>
        (let s1 = s\<lparr>targetValue := None, animating := False\<rparr>
         in (s1, case stopFunction s1 of None \<Rightarrow> m | Some i \<Rightarrow> driver_stop i m)))"

text \<open>The setter of \<open>value\<close>; its two clock readings are those of \<open>addSample\<close>.\<close>

definition set_value ::
  "real \<times> real \<Rightarrow> real \<Rightarrow> SpringAnimation \<times> Motion \<Rightarrow> SpringAnimation \<times> Motion" where
  "set_value clk v sm =
     (case sm of (s, m) \<Rightarrow>
        (case stop (s\<lparr>value' := v\<rparr>, m) of (s1, m1) \<Rightarrow>
           (s1\<lparr>externallySetVelocityTracker :=
                 addSample (fst clk) (snd clk) v (externallySetVelocityTracker s1)\<rparr>, m1)))"

definition SpringAnimation_new ::
  "real \<times> real \<Rightarrow> real \<Rightarrow> real \<Rightarrow> SpringParams \<Rightarrow> Motion \<Rightarrow> SpringAnimation \<times> Motion" where
  "SpringAnimation_new clk initialValue sc ps m =
     set_value clk initialValue
       (\<lparr>animating = False, externallySetVelocityTracker = VelocityTracker_new,
         onChange = False, notified = [], value' = 0, targetValue = None, velocity' = None,
         stopFunction = None, scale = sc, params = ps\<rparr>, m)"

text \<open>\<open>this._velocity ?? 0\<close>, the branch of the getter \<open>velocity\<close> taken while animating.\<close>

definition animating_velocity :: "SpringAnimation \<Rightarrow> real" where
  "animating_velocity s = (case velocity' s of None \<Rightarrow> 0 | Some v \<Rightarrow> v)"

definition SpringAnimation_velocity ::
  "real \<Rightarrow> real \<Rightarrow> SpringAnimation \<Rightarrow> jsnum \<times> SpringAnimation" where
  "SpringAnimation_velocity tTrim tNow s =
     (if animating s then (Num (animating_velocity s), s)
      else
        (case velocity tTrim tNow (externallySetVelocityTracker s) of (v, tr) \<Rightarrow>
           (v, s\<lparr>externallySetVelocityTracker := tr\<rparr>)))"

text \<open>
  \<open>start\<close> reads \<open>this.velocity\<close> after it has set \<open>animating\<close>, so the getter takes its
  first branch there.
\<close>

definition start :: "real \<Rightarrow> real \<Rightarrow> SpringAnimation \<times> Motion \<Rightarrow> SpringAnimation \<times> Motion" where
  "start target v sm =
     (case stop sm of (s0, m0) \<Rightarrow>
        (let s1 = s0\<lparr>animating := True, targetValue := Some target, velocity' := Some v\<rparr>;
             opts = \<lparr>opt_from = value' s1 * scale s1,
                     opt_to = target * scale s1,
                     opt_velocity = animating_velocity s1 * scale s1,
                     opt_stiffness = ((2 * pi) / response (params s1)) ^ 2,
                     opt_damping = (4 * pi * dampingRatio (params s1)) / response (params s1),
                     opt_restDelta = epsilon (params s1)\<rparr>
         in (case animate opts m0 of (i, m1) \<Rightarrow> (s1\<lparr>stopFunction := Some i\<rparr>, m1))))"

definition onUpdate :: "real \<Rightarrow> SpringAnimation \<Rightarrow> SpringAnimation" where
  "onUpdate v s =
     (let s1 = s\<lparr>value' := v / scale s\<rparr>
      in if onChange s1 then s1\<lparr>notified := notified s1 @ [value' s1]\<rparr> else s1)"

definition onComplete :: "SpringAnimation \<times> Motion \<Rightarrow> SpringAnimation \<times> Motion" where
  "onComplete sm = (case sm of (s, m) \<Rightarrow> stop (s\<lparr>stopFunction := None\<rparr>, m))"

text \<open>
  One tick of the animation that the spring holds. \<open>latest\<close> is the value the solver hands
  to \<open>onUpdate\<close>, \<open>rate\<close> the velocity of the solver's state at that tick (which no
  callback receives), \<open>is_done\<close> (the \<open>done\<close> of that state) whether the solver has come to
  rest. An animation that is not among the tickers is not called.
\<close>

record SolverOutput =
  latest :: real
  rate :: real
  is_done :: bool

definition solver_update :: "SolverOutput \<Rightarrow> SpringAnimation \<times> Motion \<Rightarrow> SpringAnimation \<times> Motion" where
  "solver_update out sm =
     (case sm of (s, m) \<Rightarrow>
        (case stopFunction s of
           None \<Rightarrow> (s, m)
         | Some i \<Rightarrow>
             if i \<notin> set (tickers m) then (s, m)
             else
               (let s1 = onUpdate (latest out) s
                in if is_done out then onComplete (s1, driver_stop i m) else (s1, m))))"

fun solver_updates :: "SolverOutput list \<Rightarrow> SpringAnimation \<times> Motion \<Rightarrow> SpringAnimation \<times> Motion" where
  "solver_updates [] sm = sm"
| "solver_updates (out # outs) sm = solver_updates outs (solver_update out sm)"

section \<open>The ball (ball.ts)\<close>

text \<open>
  Of the SpriteKit node the model keeps what the program reads and writes: the physics
  body (\<open>None\<close> for \<open>null\<close>) with the impulses applied to it, the scale that \<open>setScale\<close>
  sets, the actions run on the node, each with the callback that the completion block of
  \<open>dock\<close> will call (if it has one), and the rotations of the image nodes. The sprites'
  textures, sizes and alpha are left out.
\<close>

record PhysicsBody =
  isDynamic :: bool
  affectedByGravity :: bool
  body_velocity :: CGVector
  restitution :: real
  allowsRotation :: bool
  usesPreciseCollisionDetection :: bool
  contactTestBitMask :: nat
  impulses :: "CGVector list"

definition bodyWithCircleOfRadius :: "real \<Rightarrow> PhysicsBody" where
  "bodyWithCircleOfRadius r =
     \<lparr>isDynamic = True, affectedByGravity = True, body_velocity = \<lparr>dx = 0, dy = 0\<rparr>,
      restitution = 0.2, allowsRotation = True, usesPreciseCollisionDetection = False,
      contactTestBitMask = 0, impulses = []\<rparr>"


datatype SKAction = scaleToDuration real real | moveToDuration CGPoint real

record Ball =
  radius :: real
  position :: CGPoint
  physicsBody :: "PhysicsBody option"
  nodeScale :: real
  actions :: "(SKAction \<times> nat option) list"
  imgContainer_zRotation :: real
  imgNode_zRotation :: real
  dragScale :: SpringAnimation
  squish :: SpringAnimation
  beingDragged :: bool

definition rect :: "Ball \<Rightarrow> CGRect" where
  "rect b =
     \<lparr>origin = \<lparr>px = px (position b) - radius b, py = py (position b) - radius b\<rparr>,
      rsize = \<lparr>width = radius b * 2, height = radius b * 2\<rparr>\<rparr>"

text \<open>
  \<open>Ball.new()\<close> runs the field initialisers, among them the constructors of the two
  springs, which read the clock (\<open>clkDrag\<close>, \<open>clkSquish\<close>).
\<close>

definition Ball_new :: "real \<times> real \<Rightarrow> real \<times> real \<Rightarrow> Motion \<Rightarrow> Ball \<times> Motion" where
  "Ball_new clkDrag clkSquish m =
     (case SpringAnimation_new clkDrag 1 1000 (SpringParams_new 0.2 0.8) m of (ds, m1) \<Rightarrow>
        (case SpringAnimation_new clkSquish 1 1000 (SpringParams_new 0.3 0.5) m1 of (sq, m2) \<Rightarrow>
           (\<lparr>radius = 0, position = CGPointZero, physicsBody = None, nodeScale = 1,
             actions = [], imgContainer_zRotation = 0, imgNode_zRotation = 0,
             dragScale = ds, squish = sq, beingDragged = False\<rparr>, m2)))"

definition create ::
  "real \<times> real \<Rightarrow> real \<times> real \<Rightarrow> real \<Rightarrow> CGPoint \<Rightarrow> Motion \<Rightarrow> Ball \<times> Motion" where
  "create clkDrag clkSquish r p m =
     (case Ball_new clkDrag clkSquish m of (ball, m1) \<Rightarrow>
        (let body = (bodyWithCircleOfRadius r)
               \<lparr>isDynamic := True, restitution := 0.6, allowsRotation := False,
                usesPreciseCollisionDetection := True, contactTestBitMask := 1\<rparr>
         in (ball\<lparr>radius := r, position := p, physicsBody := Some body\<rparr>, m1)))"

text \<open>\<open>Math.atan2\<close>.\<close>

definition atan2 :: "real \<Rightarrow> real \<Rightarrow> real" where
  "atan2 b a =
     (if 0 < a then arctan (b / a)
      else if a < 0 \<and> 0 \<le> b then arctan (b / a) + pi
      else if a < 0 then arctan (b / a) - pi
      else if 0 < b then pi / 2
      else if b < 0 then - (pi / 2)
      else 0)"

text \<open>
  A timer scheduled by \<open>didCollide\<close>; its block keeps the velocity it restarts the squish
  spring with.
\<close>

datatype timer_block = squish_release real

record NSTimer =
  interval :: real
  repeats :: bool
  block :: timer_block

definition didCollide ::
  "real \<Rightarrow> CGVector \<Rightarrow> Ball \<times> Motion \<times> NSTimer list \<Rightarrow> Ball \<times> Motion \<times> NSTimer list" where
  "didCollide strength normal w =
     (case w of (b, m, timers) \<Rightarrow>
        (let angle = atan2 (dy normal) (dx normal);
             b1 = b\<lparr>imgContainer_zRotation := angle, imgNode_zRotation := - angle\<rparr>;
             targetScale = remap strength 0 1 1 0.8;
             vel = remap strength 0 1 (- 5) (- 10)
         in (case start targetScale vel (squish b1, m) of (sq, m1) \<Rightarrow>
               (b1\<lparr>squish := sq\<rparr>, m1,
                timers @ [\<lparr>interval = 0.01, repeats = False, block = squish_release vel\<rparr>]))))"

fun run_block :: "timer_block \<Rightarrow> Ball \<times> Motion \<Rightarrow> Ball \<times> Motion" where
  "run_block (squish_release vel) (b, m) =
     (case start 1 vel (squish b, m) of (sq, m1) \<Rightarrow> (b\<lparr>squish := sq\<rparr>, m1))"

section \<open>The view controller (view_controller.ts)\<close>

record DragState =
  velocityTracker :: PointVelocityTracker
  ballStart :: CGPoint
  mouseStart :: CGPoint
  currentMousePos :: CGPoint

definition currentBallPos :: "DragState \<Rightarrow> CGPoint" where
  "currentBallPos d =
     (let delta = \<lparr>px = px (currentMousePos d) - px (mouseStart d),
                    py = py (currentMousePos d) - py (mouseStart d)\<rparr>
      in \<lparr>px = px (ballStart d) + px delta, py = py (ballStart d) + py delta\<rparr>)"

record NSSound =
  volume :: real
  isPlaying :: bool

text \<open>
  The closures the controller queues: on \<open>physicsQueue\<close>, the impulse for a ball; on the
  main operation queue, the collision sound with its strength.
\<close>

datatype physics_callback = apply_impulse nat CGVector

datatype main_operation = collision_sound real


text \<open>
  Balls are objects: \<open>balls\<close> holds every ball created, and a reference to a ball is its
  index there. \<open>_ball\<close> is \<open>ball'\<close>, \<open>_dragState\<close> is \<open>dragState'\<close>. \<open>scene_children\<close> are the
  children of \<open>this.scene\<close>, \<open>screen_frame\<close> is the frame of \<open>this.view.window?.screen\<close>
  (\<open>None\<close> when there is no window or no screen), \<open>view_bounds\<close> is \<open>this.view.bounds\<close>,
  \<open>mainQueue\<close> the operations added to \<open>NSOperationQueue.mainQueue\<close> and not yet run.
  A completion callback is a number; \<open>called\<close> lists the callbacks called, in order.
\<close>

record ViewController =
  balls :: "Ball list"
  scene_children :: "nat list"
  physicsQueue :: "physics_callback list"
  ball' :: "nat option"
  tempMouseCatcherRect :: "CGRect option"
  dragState' :: "DragState option"
  sounds :: "NSSound list"
  screen_frame :: "CGRect option"
  view_bounds :: CGRect
  mainQueue :: "main_operation list"
  called :: "nat list"
  motion :: Motion

definition update_ball :: "nat \<Rightarrow> (Ball \<Rightarrow> Ball) \<Rightarrow> ViewController \<Rightarrow> ViewController" where
  "update_ball r f vc = vc\<lparr>balls := (balls vc)[r := f (balls vc ! r)]\<rparr>"

text \<open>\<open>destroy\<close> of the ball \<open>r\<close>: \<open>removeFromParent\<close>, then the physics body is cleared.\<close>

definition destroy :: "nat \<Rightarrow> ViewController \<Rightarrow> ViewController" where
  "destroy r vc =
     update_ball r (\<lambda>b. b\<lparr>physicsBody := None\<rparr>)
       (vc\<lparr>scene_children := removeAll r (scene_children vc)\<rparr>)"

text \<open>The setter of \<open>ball\<close>.\<close>

definition set_ball :: "nat option \<Rightarrow> ViewController \<Rightarrow> ViewController" where
  "set_ball v vc =
     (let vc1 = (case ball' vc of None \<Rightarrow> vc | Some old \<Rightarrow> destroy old vc);
          vc2 = vc1\<lparr>ball' := v\<rparr>
      in case v of None \<Rightarrow> vc2 | Some r \<Rightarrow> vc2\<lparr>scene_children := scene_children vc2 @ [r]\<rparr>)"

text \<open>
  The impulse that \<open>launch\<close> computes, from the rectangle and the frame of the screen; the
  distances are those of the source, measured from an edge of the frame into the screen.
\<close>

definition launch_impulse :: "CGRect \<Rightarrow> CGRect \<Rightarrow> CGVector" where
  "launch_impulse rct frame =
     (let strength = 2000;
          distFromLeft = CGRectGetMidX rct - CGRectGetMinX frame;
          distFromRight = CGRectGetMaxX frame - CGRectGetMidX rct;
          distFromBottom = CGRectGetMidY rct - CGRectGetMinY frame;
          impulse = \<lparr>dx = 0, dy = 0\<rparr>;
          impulse1 = (if distFromBottom < 200 then impulse\<lparr>dy := strength\<rparr> else impulse);
          impulse2 = (if distFromLeft < 200 then impulse1\<lparr>dx := strength\<rparr>
                      else if distFromRight < 200 then impulse1\<lparr>dx := - strength\<rparr>
                      else impulse1)
      in impulse2)"

text \<open>
  \<open>launch\<close> creates a ball, so it takes the clock readings of the two springs of the ball.
  \<open>runAction\<close> adds the action to those of the ball.
\<close>

definition launch ::
  "real \<times> real \<Rightarrow> real \<times> real \<Rightarrow> CGRect \<Rightarrow> ViewController \<Rightarrow> ViewController" where
  "launch clkDrag clkSquish rct vc =
     (case screen_frame vc of
        None \<Rightarrow> vc
      | Some frame \<Rightarrow>
          (case create clkDrag clkSquish RADIUS
                  \<lparr>px = CGRectGetMidX rct, py = CGRectGetMidY rct\<rparr> (motion vc) of
             (ball, m1) \<Rightarrow>
               (let r = length (balls vc);
                    vc1 = set_ball (Some r) (vc\<lparr>balls := balls vc @ [ball], motion := m1\<rparr>);
                    impulse = launch_impulse rct frame;
                    vc2 = update_ball r
                            (\<lambda>b. b\<lparr>nodeScale := width (rsize rct) / (radius b * 2)\<rparr>) vc1;
                    vc3 = update_ball r
                            (\<lambda>b. b\<lparr>actions := actions b @ [(scaleToDuration 1 0.5, None)]\<rparr>) vc2
                in vc3\<lparr>physicsQueue := physicsQueue vc3 @ [apply_impulse r impulse]\<rparr>)))"

definition dock :: "CGRect \<Rightarrow> nat \<Rightarrow> ViewController \<Rightarrow> ViewController" where
  "dock rct onComplete_cb vc =
     (case ball' vc of
        None \<Rightarrow> vc\<lparr>called := called vc @ [onComplete_cb]\<rparr>
      | Some r \<Rightarrow>
          (let vc1 = update_ball r
                       (\<lambda>b. case physicsBody b of
                               None \<Rightarrow> b
                             | Some body \<Rightarrow>
                                 b\<lparr>physicsBody :=
                                     Some (body\<lparr>isDynamic := False, affectedByGravity := False,
                                                body_velocity := \<lparr>dx = 0, dy = 0\<rparr>\<rparr>)\<rparr>) vc;
               vc2 = update_ball r
                       (\<lambda>b. b\<lparr>actions := actions b @
                               [(scaleToDuration (width (rsize rct) / (radius b * 2)) 0.25, None)]\<rparr>)
                       vc1;
               vc3 = update_ball r
                       (\<lambda>b. b\<lparr>actions := actions b @
                               [(moveToDuration
                                   \<lparr>px = CGRectGetMidX rct, py = CGRectGetMidY rct\<rparr> 0.25,
                                 Some onComplete_cb)]\<rparr>)
                       vc2
           in vc3))"

text \<open>The completion block of the move action of \<open>dock\<close>.\<close>

definition dock_completion :: "nat \<Rightarrow> ViewController \<Rightarrow> ViewController" where
  "dock_completion onComplete_cb vc =
     (let vc1 = set_ball None vc in vc1\<lparr>called := called vc1 @ [onComplete_cb]\<rparr>)"




definition collisionStrength :: "real \<Rightarrow> real" where
  "collisionStrength collisionImpulse =
     (let minImpulse = 1000; maxImpulse = 2000
      in remap collisionImpulse minImpulse maxImpulse 0 0.5)"

definition didBeginContact :: "real \<Rightarrow> ViewController \<Rightarrow> ViewController" where
  "didBeginContact collisionImpulse vc =
     (if collisionStrength collisionImpulse \<le> 0 then vc
      else vc\<lparr>mainQueue := mainQueue vc @ [collision_sound (collisionStrength collisionImpulse)]\<rparr>)"

text \<open>
  The sounds are objects too; \<open>soundsUsable\<close> lists the indices of those that are not
  playing. \<open>play\<close> of \<open>NSSound\<close> (AppKit) starts the sound. \<open>rnd\<close> is the value of
  \<open>Math.random()\<close>, a number from 0 up to but not including 1.
\<close>

definition soundsUsable :: "NSSound list \<Rightarrow> nat list" where
  "soundsUsable ss = filter (\<lambda>i. \<not> isPlaying (ss ! i)) [0..<length ss]"

definition play :: "NSSound \<Rightarrow> NSSound" where
  "play sound = sound\<lparr>isPlaying := True\<rparr>"

fun run_main_operation :: "real \<Rightarrow> main_operation \<Rightarrow> ViewController \<Rightarrow> ViewController" where
  "run_main_operation rnd (collision_sound strength) vc =
     (let usable = soundsUsable (sounds vc)
      in if length usable = 0 then vc
         else
           (let randomSound = usable ! nat \<lfloor>rnd * real (length usable)\<rfloor>
            in vc\<lparr>sounds := (sounds vc)
                  [randomSound := play ((sounds vc ! randomSound)\<lparr>volume := strength\<rparr>)]\<rparr>))"

section \<open>Notions the properties are stated with\<close>






















text \<open>
  The options \<open>start\<close> hands to \<open>animate\<close>, from the spring as it is when \<open>start\<close> is
  called.
\<close>

definition start_options :: "real \<Rightarrow> real \<Rightarrow> SpringAnimation \<Rightarrow> SpringOptions" where
  "start_options target v s =
     \<lparr>opt_from = value' s * scale s,
      opt_to = target * scale s,
      opt_velocity = v * scale s,
      opt_stiffness = ((2 * pi) / response (params s)) ^ 2,
      opt_damping = (4 * pi * dampingRatio (params s)) / response (params s),
      opt_restDelta = epsilon (params s)\<rparr>"

text \<open>
  The children of the scene are the ball of the controller, if it has one, and nothing
  else. The controller starts so (no ball, an empty scene), and only the setter of
  \<open>ball\<close> adds a child or removes one.
\<close>

definition scene_holds_ball :: "ViewController \<Rightarrow> bool" where
  "scene_holds_ball vc =
     (scene_children vc = (case ball' vc of None \<Rightarrow> [] | Some r \<Rightarrow> [r]))"

text \<open>A sequence of assignments to \<open>ball\<close>.\<close>

fun assign_all :: "nat option list \<Rightarrow> ViewController \<Rightarrow> ViewController" where
  "assign_all [] vc = vc"
| "assign_all (v # vs) vc = assign_all vs (set_ball v vc)"

text \<open>The ball the controller holds is one of the balls created.\<close>

definition refs_valid :: "ViewController \<Rightarrow> bool" where
  "refs_valid vc = (case ball' vc of None \<Rightarrow> True | Some r \<Rightarrow> r < length (balls vc))"

section \<open>Concrete states\<close>

definition two_samples_tracker :: VelocityTracker where
  "two_samples_tracker =
     \<lparr>samples = [\<lparr>time = 0, sample_value = 0\<rparr>, \<lparr>time = 1 / 100, sample_value = 1\<rparr>],
      lookBack = 1 / 15\<rparr>"

definition two_points_tracker :: PointVelocityTracker where
  "two_points_tracker =
     \<lparr>psamples = [\<lparr>ptime = 0, pos = \<lparr>px = 0, py = 0\<rparr>\<rparr>,
                  \<lparr>ptime = 1 / 100, pos = \<lparr>px = 3, py = 4\<rparr>\<rparr>]\<rparr>"

definition one_sample_tracker :: VelocityTracker where
  "one_sample_tracker = \<lparr>samples = [\<lparr>time = 0, sample_value = 5\<rparr>], lookBack = 1 / 15\<rparr>"

definition one_point_tracker :: PointVelocityTracker where
  "one_point_tracker = \<lparr>psamples = [\<lparr>ptime = 0, pos = \<lparr>px = 3, py = 4\<rparr>\<rparr>]\<rparr>"

definition equal_times_tracker :: VelocityTracker where
  "equal_times_tracker =
     \<lparr>samples = [\<lparr>time = 0, sample_value = 0\<rparr>, \<lparr>time = 0, sample_value = 1\<rparr>],
      lookBack = 1 / 15\<rparr>"

definition equal_times_point_tracker :: PointVelocityTracker where
  "equal_times_point_tracker =
     \<lparr>psamples = [\<lparr>ptime = 0, pos = \<lparr>px = 0, py = 0\<rparr>\<rparr>,
                  \<lparr>ptime = 0, pos = \<lparr>px = 1, py = 0\<rparr>\<rparr>]\<rparr>"










definition idle_spring :: "SpringAnimation \<times> Motion" where
  "idle_spring = SpringAnimation_new (0, 0) 0 1000 passiveEase Motion_init"

definition moving_output :: SolverOutput where
  "moving_output = \<lparr>latest = 500, rate = 3000, is_done = False\<rparr>"

text \<open>A ball created at rest on the floor of the scene, and the normal of that floor.\<close>

definition floor_ball :: "Ball \<times> Motion" where
  "floor_ball = create (0, 0) (0, 0) RADIUS \<lparr>px = 500, py = 100\<rparr> Motion_init"

definition floor_normal :: CGVector where
  "floor_normal = \<lparr>dx = 0, dy = 1\<rparr>"

definition screen_1440 :: CGRect where
  "screen_1440 = \<lparr>origin = \<lparr>px = 0, py = 0\<rparr>, rsize = \<lparr>width = 1440, height = 900\<rparr>\<rparr>"

definition dock_icon :: CGRect where
  "dock_icon = \<lparr>origin = \<lparr>px = 700, py = 5\<rparr>, rsize = \<lparr>width = 64, height = 64\<rparr>\<rparr>"



text \<open>The controller before any launch, on a screen, with one of its three sounds still playing.\<close>

definition controller_init :: ViewController where
  "controller_init =
     \<lparr>balls = [], scene_children = [], physicsQueue = [], ball' = None,
      tempMouseCatcherRect = None, dragState' = None,
      sounds = [\<lparr>volume = 0, isPlaying = True\<rparr>, \<lparr>volume = 0, isPlaying = False\<rparr>,
                \<lparr>volume = 0, isPlaying = False\<rparr>],
      screen_frame = Some screen_1440, view_bounds = screen_1440, mainQueue = [],
      called = [], motion = Motion_init\<rparr>"

definition controller_busy :: ViewController where
  "controller_busy =
     controller_init\<lparr>sounds := [\<lparr>volume = 0, isPlaying = True\<rparr>, \<lparr>volume = 0, isPlaying = True\<rparr>,
                              \<lparr>volume = 0, isPlaying = True\<rparr>]\<rparr>"

text \<open>The controller after a launch from the dock icon.\<close>

definition controller_launched :: ViewController where
  "controller_launched = launch (0, 0) (0, 0) dock_icon controller_init"

section \<open>The velocity trackers\<close>

lemma js_div_nonzero: "b \<noteq> 0 \<Longrightarrow> js_div a b = Num (a / b)"
  by (simp add: js_div_def)

lemma velocity_eq:
  "fst (velocity tTrim tNow tr) =
     (case samples (trim tTrim tr) of
        [] \<Rightarrow> Num 0
      | s0 # _ \<Rightarrow>
          if 0 < tNow - time s0
          then Num ((sample_value (last (samples (trim tTrim tr))) - sample_value s0)
                    / (tNow - time s0))
          else Num 0)"
  by (simp add: velocity_def Let_def js_div_nonzero split: list.split)

lemma trim_two_samples:
  "samples (trim (1 / 50) two_samples_tracker) =
     [\<lparr>time = 0, sample_value = 0\<rparr>, \<lparr>time = 1 / 100, sample_value = 1\<rparr>]"
  by (simp add: trim_def two_samples_tracker_def)

lemma filtered_two_points:
  "filteredSamples (1 / 50) two_points_tracker =
     [\<lparr>ptime = 0, pos = \<lparr>px = 0, py = 0\<rparr>\<rparr>, \<lparr>ptime = 1 / 100, pos = \<lparr>px = 3, py = 4\<rparr>\<rparr>]"
  by (simp add: filteredSamples_def two_points_tracker_def)

text \<open>
  C1, as the code has it. The point tracker with exactly two retained samples
  \<open>(t0, p0)\<close>, \<open>(t1, p1)\<close>, \<open>t0 < t1\<close>, returns \<open>(p1 - p0) / (t1 - t0)\<close> in each coordinate.
  The scalar tracker with exactly two retained samples \<open>(t0, v0)\<close>, \<open>(t1, v1)\<close>, \<open>t0 < t1\<close>,
  read when the clock shows \<open>tNow\<close> (later than the first sample), returns
  \<open>(v1 - v0) / (tNow - t0)\<close>: its elapsed time runs from the first sample to the moment of
  the query, not to the last sample.
\<close>

theorem velocity_two_samples:
  assumes "t0 < t1"
    and "filteredSamples now ptr = [\<lparr>ptime = t0, pos = p0\<rparr>, \<lparr>ptime = t1, pos = p1\<rparr>]"
    and "samples (trim tTrim tr) =
           [\<lparr>time = t0, sample_value = v0\<rparr>, \<lparr>time = t1, sample_value = v1\<rparr>]"
    and "t0 < tNow"
  shows "point_velocity now ptr =
           (Num ((px p1 - px p0) / (t1 - t0)), Num ((py p1 - py p0) / (t1 - t0)))
         \<and> fst (velocity tTrim tNow tr) = Num ((v1 - v0) / (tNow - t0))"
proof
  from assms(1) have "t1 - t0 \<noteq> 0" by simp
  with assms(2) show "point_velocity now ptr =
           (Num ((px p1 - px p0) / (t1 - t0)), Num ((py p1 - py p0) / (t1 - t0)))"
    by (simp add: point_velocity_def Let_def js_div_nonzero)
next
  from assms(4) have "0 < tNow - t0" by simp
  with assms(3) show "fst (velocity tTrim tNow tr) = Num ((v1 - v0) / (tNow - t0))"
    by (simp add: velocity_eq)
qed

text \<open>
  Two samples a hundredth of a second apart, read a hundredth of a second after the
  second one: the point tracker divides by the hundredth between the samples, the scalar
  tracker by the two hundredths since the first.
\<close>

theorem velocity_two_samples_witness:
  "(0::real) < 1 / 100
   \<and> filteredSamples (1 / 50) two_points_tracker =
       [\<lparr>ptime = 0, pos = \<lparr>px = 0, py = 0\<rparr>\<rparr>, \<lparr>ptime = 1 / 100, pos = \<lparr>px = 3, py = 4\<rparr>\<rparr>]
   \<and> samples (trim (1 / 50) two_samples_tracker) =
       [\<lparr>time = 0, sample_value = 0\<rparr>, \<lparr>time = 1 / 100, sample_value = 1\<rparr>]
   \<and> (0::real) < 1 / 50
   \<and> point_velocity (1 / 50) two_points_tracker = (Num 300, Num 400)
   \<and> fst (velocity (1 / 50) (1 / 50) two_samples_tracker) = Num 50"
proof -
  have h1: "(0::real) < 1 / 100" by simp
  have h2: "filteredSamples (1 / 50) two_points_tracker =
       [\<lparr>ptime = 0, pos = \<lparr>px = 0, py = 0\<rparr>\<rparr>, \<lparr>ptime = 1 / 100, pos = \<lparr>px = 3, py = 4\<rparr>\<rparr>]"
    by (rule filtered_two_points)
  have h3: "samples (trim (1 / 50) two_samples_tracker) =
       [\<lparr>time = 0, sample_value = 0\<rparr>, \<lparr>time = 1 / 100, sample_value = 1\<rparr>]"
    by (rule trim_two_samples)
  have h4: "(0::real) < 1 / 50" by simp
  from velocity_two_samples [OF h1 h2 h3 h4] h1 h2 h3 h4 show ?thesis by simp
qed

text \<open>
  C1 as stated fails for the scalar tracker: it holds the two samples \<open>(0, 0)\<close> and
  \<open>(1/100, 1)\<close>, and read at \<open>1/50\<close> its velocity is 50, not \<open>(1 - 0) / (1/100 - 0) = 100\<close>.
\<close>

theorem velocity_two_samples_counterexample:
  "samples (trim (1 / 50) two_samples_tracker) =
       [\<lparr>time = 0, sample_value = 0\<rparr>, \<lparr>time = 1 / 100, sample_value = 1\<rparr>]
   \<and> (0::real) < 1 / 100
   \<and> fst (velocity (1 / 50) (1 / 50) two_samples_tracker) = Num 50
   \<and> fst (velocity (1 / 50) (1 / 50) two_samples_tracker) \<noteq> Num ((1 - 0) / (1 / 100 - 0))"
  by (simp add: velocity_eq trim_two_samples)

text \<open>
  C2, as the code has it, for samples of finite values and times. The scalar tracker
  divides only when the time since its first retained sample is positive, so never by
  zero; its velocity is zero with fewer than two retained samples, and whenever no time
  has passed since the first retained sample. The point tracker returns the zero vector
  with fewer than two retained samples; with two or more retained samples whose first
  and last times differ, it does not divide by zero. Nothing is said of the size of a
  quotient: by a small divisor it can be beyond the range of the doubles.
\<close>

theorem velocity_degenerate:
  "\<not> zero_division (fst (velocity tTrim tNow tr))
   \<and> (length (samples (trim tTrim tr)) < 2 \<longrightarrow> fst (velocity tTrim tNow tr) = Num 0)
   \<and> (samples (trim tTrim tr) \<noteq> [] \<and> tNow - time (hd (samples (trim tTrim tr))) \<le> 0
        \<longrightarrow> fst (velocity tTrim tNow tr) = Num 0)
   \<and> (length (filteredSamples now ptr) < 2 \<longrightarrow> point_velocity now ptr = (Num 0, Num 0))
   \<and> (2 \<le> length (filteredSamples now ptr)
        \<and> ptime (last (filteredSamples now ptr)) \<noteq> ptime (hd (filteredSamples now ptr))
        \<longrightarrow> \<not> zero_division (fst (point_velocity now ptr))
          \<and> \<not> zero_division (snd (point_velocity now ptr)))"
proof (intro conjI impI)
  show "\<not> zero_division (fst (velocity tTrim tNow tr))"
    by (simp add: velocity_eq split: list.split)
next
  assume "length (samples (trim tTrim tr)) < 2"
  then show "fst (velocity tTrim tNow tr) = Num 0"
    by (cases "samples (trim tTrim tr)") (auto simp: velocity_eq)
next
  assume "samples (trim tTrim tr) \<noteq> [] \<and> tNow - time (hd (samples (trim tTrim tr))) \<le> 0"
  then show "fst (velocity tTrim tNow tr) = Num 0"
    by (cases "samples (trim tTrim tr)") (auto simp: velocity_eq)
next
  assume "length (filteredSamples now ptr) < 2"
  then show "point_velocity now ptr = (Num 0, Num 0)"
    by (simp add: point_velocity_def CGPointZero_def)
next
  assume a: "2 \<le> length (filteredSamples now ptr)
        \<and> ptime (last (filteredSamples now ptr)) \<noteq> ptime (hd (filteredSamples now ptr))"
  then show "\<not> zero_division (fst (point_velocity now ptr))"
    by (simp add: point_velocity_def Let_def js_div_nonzero)
  from a show "\<not> zero_division (snd (point_velocity now ptr))"
    by (simp add: point_velocity_def Let_def js_div_nonzero)
qed

lemma trim_one_sample:
  "samples (trim (1 / 100) one_sample_tracker) = [\<lparr>time = 0, sample_value = 5\<rparr>]"
  by (simp add: trim_def one_sample_tracker_def)

lemma trim_equal_times_at_0:
  "samples (trim 0 equal_times_tracker) =
     [\<lparr>time = 0, sample_value = 0\<rparr>, \<lparr>time = 0, sample_value = 1\<rparr>]"
  by (simp add: trim_def equal_times_tracker_def)

lemma trim_equal_times:
  "samples (trim (1 / 100) equal_times_tracker) =
     [\<lparr>time = 0, sample_value = 0\<rparr>, \<lparr>time = 0, sample_value = 1\<rparr>]"
  by (simp add: trim_def equal_times_tracker_def)

text \<open>
  One sample in either tracker; then two samples of equal times in the scalar tracker,
  read at that same time, and two samples of different times in the point tracker.
\<close>

theorem velocity_degenerate_witness:
  "length (samples (trim (1 / 100) one_sample_tracker)) < 2
   \<and> fst (velocity (1 / 100) (1 / 100) one_sample_tracker) = Num 0
   \<and> length (filteredSamples (1 / 100) one_point_tracker) < 2
   \<and> point_velocity (1 / 100) one_point_tracker = (Num 0, Num 0)
   \<and> samples (trim 0 equal_times_tracker) \<noteq> []
   \<and> 0 - time (hd (samples (trim 0 equal_times_tracker))) \<le> 0
   \<and> fst (velocity 0 0 equal_times_tracker) = Num 0
   \<and> 2 \<le> length (filteredSamples (1 / 50) two_points_tracker)
   \<and> ptime (last (filteredSamples (1 / 50) two_points_tracker))
       \<noteq> ptime (hd (filteredSamples (1 / 50) two_points_tracker))
   \<and> \<not> zero_division (fst (point_velocity (1 / 50) two_points_tracker))
   \<and> \<not> zero_division (snd (point_velocity (1 / 50) two_points_tracker))"
proof -
  have h1: "length (samples (trim (1 / 100) one_sample_tracker)) < 2"
    by (simp add: trim_one_sample)
  have h2: "length (filteredSamples (1 / 100) one_point_tracker) < 2"
    by (simp add: filteredSamples_def one_point_tracker_def)
  have h3: "samples (trim 0 equal_times_tracker) \<noteq> []
      \<and> 0 - time (hd (samples (trim 0 equal_times_tracker))) \<le> 0"
    by (simp add: trim_equal_times_at_0)
  have h4: "2 \<le> length (filteredSamples (1 / 50) two_points_tracker)
      \<and> ptime (last (filteredSamples (1 / 50) two_points_tracker))
          \<noteq> ptime (hd (filteredSamples (1 / 50) two_points_tracker))"
    by (simp add: filtered_two_points)
  from h1 h2 h3 h4
    velocity_degenerate [of "1 / 100" "1 / 100" one_sample_tracker "1 / 100" one_point_tracker]
    velocity_degenerate [of 0 0 equal_times_tracker "1 / 50" two_points_tracker]
  show ?thesis by blast
qed

text \<open>
  C2 as stated fails for two or more retained samples of equal first and last times.
  The scalar tracker with the samples \<open>(0, 0)\<close> and \<open>(0, 1)\<close>, read at \<open>1/100\<close>, returns 100,
  not zero. The point tracker with the samples \<open>(0, (0, 0))\<close> and \<open>(0, (1, 0))\<close> divides
  by zero: its velocity is \<open>(Infinity, NaN)\<close>.
\<close>

theorem velocity_degenerate_counterexample:
  "samples (trim (1 / 100) equal_times_tracker) = samples equal_times_tracker
   \<and> length (samples equal_times_tracker) = 2
   \<and> time (hd (samples equal_times_tracker)) = time (last (samples equal_times_tracker))
   \<and> fst (velocity (1 / 100) (1 / 100) equal_times_tracker) = Num 100
   \<and> filteredSamples 0 equal_times_point_tracker = psamples equal_times_point_tracker
   \<and> length (psamples equal_times_point_tracker) = 2
   \<and> ptime (hd (psamples equal_times_point_tracker))
       = ptime (last (psamples equal_times_point_tracker))
   \<and> point_velocity 0 equal_times_point_tracker = (PosInfinity, NaN)"
  by (simp add: velocity_eq trim_equal_times)
     (simp add: equal_times_tracker_def equal_times_point_tracker_def
        filteredSamples_def point_velocity_def js_div_def)

section \<open>The rectangle clamp\<close>
























section \<open>The spring animation\<close>

lemma driver_stop_absent: "i \<notin> set (tickers m) \<Longrightarrow> driver_stop i m = m"
  by (simp add: driver_stop_def)

lemma driver_stop_tickers: "i \<notin> set (tickers (driver_stop i m))"
  by (simp add: driver_stop_def CALayerDriver_stop_def Let_def)

lemma driver_stop_idem: "driver_stop i (driver_stop i m) = driver_stop i m"
  by (rule driver_stop_absent) (rule driver_stop_tickers)

lemma stop_idem: "stop (stop sm) = stop sm"
  by (cases sm) (simp add: stop_def driver_stop_idem split: option.split)

lemma stop_fields:
  "value' (fst (stop sm)) = value' (fst sm)" "\<not> animating (fst (stop sm))"
  "targetValue (fst (stop sm)) = None" "velocity' (fst (stop sm)) = velocity' (fst sm)"
  "stopFunction (fst (stop sm)) = stopFunction (fst sm)"
  "scale (fst (stop sm)) = scale (fst sm)" "params (fst (stop sm)) = params (fst sm)"
  by (cases sm; simp add: stop_def)+

lemma stop_tickers:
  "stopFunction (fst sm) = Some i \<Longrightarrow> i \<notin> set (tickers (snd (stop sm)))"
  by (cases sm) (simp add: stop_def driver_stop_tickers)

lemma start_unfold:
  "start target v sm =
     ((fst (stop sm))\<lparr>animating := True, targetValue := Some target, velocity' := Some v,
                      stopFunction := Some (length (animations (snd (stop sm))))\<rparr>,
      driver_start (length (animations (snd (stop sm))))
        ((snd (stop sm))\<lparr>animations :=
           animations (snd (stop sm)) @ [start_options target v (fst sm)]\<rparr>))"
proof -
  obtain s0 m0 where st: "stop sm = (s0, m0)" by (cases "stop sm")
  have f: "value' s0 = value' (fst sm)" "scale s0 = scale (fst sm)" "params s0 = params (fst sm)"
    using stop_fields [of sm] st by simp_all
  show ?thesis
    unfolding start_def st
    by (simp add: animate_def Let_def animating_velocity_def start_options_def f)
qed

lemma start_fields:
  "value' (fst (start target v sm)) = value' (fst sm)"
  "animating (fst (start target v sm))"
  "targetValue (fst (start target v sm)) = Some target"
  "velocity' (fst (start target v sm)) = Some v"
  "stopFunction (fst (start target v sm)) = Some (length (animations (snd (stop sm))))"
  "scale (fst (start target v sm)) = scale (fst sm)"
  by (simp_all add: start_unfold stop_fields)

lemma start_tickers:
  "length (animations (snd (stop sm))) \<in> set (tickers (snd (start target v sm)))"
  by (simp add: start_unfold driver_start_def CALayerDriver_start_def Let_def)

lemma start_animations:
  "animations (snd (start target v sm)) =
     animations (snd (stop sm)) @ [start_options target v (fst sm)]"
  by (simp add: start_unfold driver_start_def CALayerDriver_start_def Let_def)

lemma solver_update_cancelled:
  "stopFunction (fst sm) = Some i \<Longrightarrow> i \<notin> set (tickers (snd sm)) \<Longrightarrow> solver_update out sm = sm"
  by (cases sm) (simp add: solver_update_def)

lemma solver_update_running:
  assumes "stopFunction (fst sm) = Some i" and "i \<in> set (tickers (snd sm))" and "\<not> is_done out"
  shows "solver_update out sm = (onUpdate (latest out) (fst sm), snd sm)"
  using assms by (cases sm) (simp add: solver_update_def Let_def)

lemma solver_update_start:
  "\<not> is_done out \<Longrightarrow>
   solver_update out (start target v sm) =
     (onUpdate (latest out) (fst (start target v sm)), snd (start target v sm))"
  by (rule solver_update_running [OF start_fields(5) start_tickers])

lemma onUpdate_fields:
  "animating (onUpdate a s) = animating s" "velocity' (onUpdate a s) = velocity' s"
  "value' (onUpdate a s) = a / scale s" "targetValue (onUpdate a s) = targetValue s"
  "scale (onUpdate a s) = scale s"
  by (simp_all add: onUpdate_def Let_def)

text \<open>No tick of the solver writes \<open>_velocity\<close>.\<close>

lemma solver_update_velocity': "velocity' (fst (solver_update out sm)) = velocity' (fst sm)"
  by (cases sm)
     (simp add: solver_update_def onUpdate_def onComplete_def stop_def Let_def split: option.split)

lemma solver_updates_velocity': "velocity' (fst (solver_updates outs sm)) = velocity' (fst sm)"
  by (induction outs arbitrary: sm) (simp_all add: solver_update_velocity')

lemma set_value_fields:
  "scale (fst (set_value clk a sm)) = scale (fst sm)"
  "value' (fst (set_value clk a sm)) = a"
  "\<not> animating (fst (set_value clk a sm))"
  by (cases sm; cases "stop (fst sm\<lparr>value' := a\<rparr>, snd sm)";
      insert stop_fields [of "(fst sm\<lparr>value' := a\<rparr>, snd sm)"]; simp add: set_value_def)+

lemma idle_spring_fields:
  "scale (fst idle_spring) = 1000" "value' (fst idle_spring) = 0" "\<not> animating (fst idle_spring)"
  by (simp_all add: idle_spring_def SpringAnimation_new_def set_value_fields)

lemma moving_output_fields:
  "\<not> is_done moving_output" "latest moving_output = 500" "rate moving_output = 3000"
  by (simp_all add: moving_output_def)

text \<open>
  C4, as the code has it. While \<open>animating\<close> is false, \<open>velocity\<close> is the velocity of the
  tracker of externally set values. While \<open>animating\<close> is true, \<open>velocity\<close> is the initial
  velocity passed to the last \<open>start\<close>, whatever the solver has computed since: after
  \<open>start(target, v)\<close> and any ticks of its solver that leave the spring animating, it is
  \<open>v\<close>.
\<close>

theorem spring_velocity:
  "(\<not> animating s \<longrightarrow>
      fst (SpringAnimation_velocity tTrim tNow s) =
        fst (velocity tTrim tNow (externallySetVelocityTracker s)))
   \<and> (animating (fst (solver_updates outs (start target v sm))) \<longrightarrow>
      fst (SpringAnimation_velocity tTrim tNow (fst (solver_updates outs (start target v sm))))
        = Num v)"
  by (simp add: SpringAnimation_velocity_def animating_velocity_def solver_updates_velocity'
        start_fields split: prod.split)

text \<open>
  A spring at rest, and the same spring started towards 1 with velocity 0 and ticked
  once by a solver that is at 500 (of 1000) and moving.
\<close>

theorem spring_velocity_witness:
  "\<not> animating (fst idle_spring)
   \<and> fst (SpringAnimation_velocity 1 1 (fst idle_spring)) =
       fst (velocity 1 1 (externallySetVelocityTracker (fst idle_spring)))
   \<and> animating (fst (solver_updates [moving_output] (start 1 0 idle_spring)))
   \<and> fst (SpringAnimation_velocity 1 1 (fst (solver_updates [moving_output] (start 1 0 idle_spring))))
       = Num 0"
proof -
  have h1: "\<not> animating (fst idle_spring)" by (rule idle_spring_fields)
  have h2: "animating (fst (solver_updates [moving_output] (start 1 0 idle_spring)))"
    by (simp add: solver_update_start moving_output_fields onUpdate_fields start_fields)
  from h1 h2 spring_velocity [of "fst idle_spring" 1 1 "[moving_output]" 1 0 idle_spring]
  show ?thesis by blast
qed

text \<open>
  C4 as stated fails while animating. A spring of scale 1000 is started from 0 towards 1
  with initial velocity 0; at a tick its solver is at 500 and moves at the rate 3000,
  which is 3 in the units of the spring. The spring is animating, its value is 1/2, and
  its \<open>velocity\<close> is still 0.
\<close>

theorem spring_velocity_counterexample:
  "animating (fst (solver_update moving_output (start 1 0 idle_spring)))
   \<and> value' (fst (solver_update moving_output (start 1 0 idle_spring))) = 1 / 2
   \<and> rate moving_output / scale (fst (solver_update moving_output (start 1 0 idle_spring))) = 3
   \<and> fst (SpringAnimation_velocity 1 1 (fst (solver_update moving_output (start 1 0 idle_spring))))
       = Num 0"
  by (simp add: solver_update_start moving_output_fields onUpdate_fields start_fields
        idle_spring_fields SpringAnimation_velocity_def animating_velocity_def)

text \<open>
  C8. For every spring, target and initial velocity: after \<open>start\<close> and then \<open>stop\<close>, with
  no tick in between, \<open>value\<close> is what it was before \<open>start\<close>, \<open>animating\<close> is false and
  \<open>targetValue\<close> is cleared; the solve is cancelled (a tick no longer reaches the spring);
  and a further \<open>stop\<close> changes nothing, as \<open>stop\<close> on any spring that has just been stopped.
\<close>

theorem start_then_stop:
  "value' (fst (stop (start target v sm))) = value' (fst sm)
   \<and> \<not> animating (fst (stop (start target v sm)))
   \<and> targetValue (fst (stop (start target v sm))) = None
   \<and> solver_update out (stop (start target v sm)) = stop (start target v sm)
   \<and> stop (stop (start target v sm)) = stop (start target v sm)
   \<and> stop (stop sm) = stop sm"
proof -
  have "stopFunction (fst (stop (start target v sm))) = Some (length (animations (snd (stop sm))))"
    by (simp add: stop_fields start_fields)
  moreover have "length (animations (snd (stop sm))) \<notin> set (tickers (snd (stop (start target v sm))))"
    by (rule stop_tickers) (simp add: start_fields)
  ultimately have "solver_update out (stop (start target v sm)) = stop (start target v sm)"
    by (rule solver_update_cancelled)
  then show ?thesis
    by (simp add: stop_fields start_fields stop_idem)
qed

text \<open>The spring at rest at 0, started towards 1 with velocity 2 and stopped at once.\<close>

theorem start_then_stop_witness:
  "value' (fst (stop (start 1 2 idle_spring))) = 0
   \<and> \<not> animating (fst (stop (start 1 2 idle_spring)))
   \<and> targetValue (fst (stop (start 1 2 idle_spring))) = None
   \<and> solver_update moving_output (stop (start 1 2 idle_spring)) = stop (start 1 2 idle_spring)
   \<and> stop (stop (start 1 2 idle_spring)) = stop (start 1 2 idle_spring)"
  using start_then_stop [of 1 2 idle_spring moving_output]
  by (simp add: idle_spring_fields)

section \<open>The squish of the ball\<close>

lemma remap_unit_down:
  "0 \<le> s \<Longrightarrow> s \<le> 1 \<Longrightarrow> remap s 0 1 1 0.8 = 1 - 0.2 * s"
  by (simp add: remap_def remap_flag_def Let_def min_def max_def)

lemma remap_unit_velocity:
  "0 \<le> s \<Longrightarrow> s \<le> 1 \<Longrightarrow> remap s 0 1 (- 5) (- 10) = - 5 - 5 * s"
  by (simp add: remap_def remap_flag_def Let_def min_def max_def)

lemma remap_ends:
  "remap 0 0 1 1 0.8 = 1" "remap 1 0 1 1 0.8 = 0.8"
  "remap 0 0 1 (- 5) (- 10) = - 5" "remap 1 0 1 (- 5) (- 10) = - 10"
  by (simp_all add: remap_def remap_flag_def Let_def)

lemma didCollide_unfold:
  "didCollide strength normal (b, m, timers) =
     (b\<lparr>imgContainer_zRotation := atan2 (dy normal) (dx normal),
        imgNode_zRotation := - atan2 (dy normal) (dx normal),
        squish := fst (start (remap strength 0 1 1 0.8) (remap strength 0 1 (- 5) (- 10))
                         (squish b, m))\<rparr>,
      snd (start (remap strength 0 1 1 0.8) (remap strength 0 1 (- 5) (- 10)) (squish b, m)),
      timers @ [\<lparr>interval = 0.01, repeats = False,
                 block = squish_release (remap strength 0 1 (- 5) (- 10))\<rparr>])"
  by (simp add: didCollide_def Let_def split: prod.split)

lemma run_block_unfold:
  "run_block (squish_release vel) (b, m) =
     (b\<lparr>squish := fst (start 1 vel (squish b, m))\<rparr>, snd (start 1 vel (squish b, m)))"
  by (simp split: prod.split)

text \<open>
  C9. For a strength from 0 to 1, \<open>didCollide\<close> starts the squish spring towards
  \<open>remap(strength, 0, 1, 1, 0.8)\<close> with the initial velocity \<open>remap(strength, 0, 1, -5, -10)\<close>,
  and these are what \<open>animate\<close> receives, in the scale of the spring. It schedules one
  timer of 0.01 seconds that does not repeat, whose block starts the squish spring
  towards 1 with that same velocity. On that range the target is \<open>1 - 0.2 * strength\<close> and
  the velocity \<open>- 5 - 5 * strength\<close>: 1 and -5 at strength 0, 0.8 and -10 at strength 1.
\<close>

theorem didCollide_squish:
  assumes "0 \<le> strength" and "strength \<le> 1"
  shows "targetValue (squish (fst (didCollide strength normal (b, m, timers))))
           = Some (remap strength 0 1 1 0.8)
    \<and> velocity' (squish (fst (didCollide strength normal (b, m, timers))))
           = Some (remap strength 0 1 (- 5) (- 10))
    \<and> animating (squish (fst (didCollide strength normal (b, m, timers))))
    \<and> last (animations (fst (snd (didCollide strength normal (b, m, timers)))))
           = start_options (remap strength 0 1 1 0.8) (remap strength 0 1 (- 5) (- 10)) (squish b)
    \<and> snd (snd (didCollide strength normal (b, m, timers)))
           = timers @ [\<lparr>interval = 0.01, repeats = False,
                        block = squish_release (remap strength 0 1 (- 5) (- 10))\<rparr>]
    \<and> targetValue (squish (fst (run_block (squish_release vel) (b', m')))) = Some 1
    \<and> velocity' (squish (fst (run_block (squish_release vel) (b', m')))) = Some vel
    \<and> animating (squish (fst (run_block (squish_release vel) (b', m'))))
    \<and> remap strength 0 1 1 0.8 = 1 - 0.2 * strength
    \<and> remap strength 0 1 (- 5) (- 10) = - 5 - 5 * strength
    \<and> remap 0 0 1 1 0.8 = 1 \<and> remap 1 0 1 1 0.8 = 0.8
    \<and> remap 0 0 1 (- 5) (- 10) = - 5 \<and> remap 1 0 1 (- 5) (- 10) = - 10"
proof -
  have c: "targetValue (squish (fst (didCollide strength normal (b, m, timers))))
           = Some (remap strength 0 1 1 0.8)
    \<and> velocity' (squish (fst (didCollide strength normal (b, m, timers))))
           = Some (remap strength 0 1 (- 5) (- 10))
    \<and> animating (squish (fst (didCollide strength normal (b, m, timers))))
    \<and> last (animations (fst (snd (didCollide strength normal (b, m, timers)))))
           = start_options (remap strength 0 1 1 0.8) (remap strength 0 1 (- 5) (- 10)) (squish b)
    \<and> snd (snd (didCollide strength normal (b, m, timers)))
           = timers @ [\<lparr>interval = 0.01, repeats = False,
                        block = squish_release (remap strength 0 1 (- 5) (- 10))\<rparr>]"
    unfolding didCollide_unfold by (simp add: start_fields start_animations)
  have r: "targetValue (squish (fst (run_block (squish_release vel) (b', m')))) = Some 1
    \<and> velocity' (squish (fst (run_block (squish_release vel) (b', m')))) = Some vel
    \<and> animating (squish (fst (run_block (squish_release vel) (b', m'))))"
    unfolding run_block_unfold by (simp add: start_fields)
  from c r remap_ends remap_unit_down [OF assms] remap_unit_velocity [OF assms] show ?thesis
    by blast
qed

text \<open>A collision of strength 1/2: towards 0.9, with velocity -7.5.\<close>

theorem didCollide_squish_witness:
  "(0::real) \<le> 1 / 2 \<and> (1 / 2 :: real) \<le> 1
   \<and> targetValue (squish (fst (didCollide (1 / 2) floor_normal
         (fst floor_ball, snd floor_ball, [])))) = Some (9 / 10)
   \<and> velocity' (squish (fst (didCollide (1 / 2) floor_normal
         (fst floor_ball, snd floor_ball, [])))) = Some (- 15 / 2)
   \<and> animating (squish (fst (didCollide (1 / 2) floor_normal
         (fst floor_ball, snd floor_ball, []))))
   \<and> snd (snd (didCollide (1 / 2) floor_normal (fst floor_ball, snd floor_ball, [])))
       = [\<lparr>interval = 0.01, repeats = False, block = squish_release (- 15 / 2)\<rparr>]
   \<and> targetValue (squish (fst (run_block (squish_release (- 15 / 2))
         (fst floor_ball, snd floor_ball)))) = Some 1
   \<and> velocity' (squish (fst (run_block (squish_release (- 15 / 2))
         (fst floor_ball, snd floor_ball)))) = Some (- 15 / 2)"
proof -
  have h1: "(0::real) \<le> 1 / 2" and h2: "(1 / 2 :: real) \<le> 1" by simp_all
  have v: "remap (1 / 2) 0 1 1 0.8 = 9 / 10" "remap (1 / 2) 0 1 (- 5) (- 10) = - 15 / 2"
    by (simp_all add: remap_def remap_flag_def Let_def)
  have e: "[] @ [\<lparr>interval = 0.01, repeats = False, block = squish_release (- 15 / 2)\<rparr>]
      = [\<lparr>interval = 0.01, repeats = False, block = squish_release (- 15 / 2)\<rparr>]"
    by (rule append_Nil)
  from didCollide_squish [OF h1 h2, of floor_normal "fst floor_ball" "snd floor_ball" "[]"
      "- 15 / 2" "fst floor_ball" "snd floor_ball"] h1 h2
  show ?thesis unfolding v e by blast
qed

section \<open>The view controller\<close>

lemma update_ball_fields:
  "physicsQueue (update_ball r f vc) = physicsQueue vc"
  "ball' (update_ball r f vc) = ball' vc"
  "scene_children (update_ball r f vc) = scene_children vc"
  "length (balls (update_ball r f vc)) = length (balls vc)"
  "called (update_ball r f vc) = called vc"
  by (simp_all add: update_ball_def)


lemma set_ball_fields:
  "ball' (set_ball v vc) = v"
  "physicsQueue (set_ball v vc) = physicsQueue vc"
  "length (balls (set_ball v vc)) = length (balls vc)"
  "called (set_ball v vc) = called vc"
  "screen_frame (set_ball v vc) = screen_frame vc"
  by (simp_all add: set_ball_def destroy_def update_ball_def Let_def split: option.split)

lemma set_ball_children:
  "scene_children (set_ball v vc) =
     (case ball' vc of None \<Rightarrow> scene_children vc | Some old \<Rightarrow> removeAll old (scene_children vc))
     @ (case v of None \<Rightarrow> [] | Some r \<Rightarrow> [r])"
  by (simp add: set_ball_def destroy_def update_ball_def Let_def split: option.split)


lemma set_ball_destroys:
  "ball' vc = Some old \<Longrightarrow> old < length (balls vc) \<Longrightarrow>
     physicsBody (balls (set_ball v vc) ! old) = None"
  by (simp add: set_ball_def destroy_def update_ball_def Let_def split: option.split)

lemma set_ball_invariant: "scene_holds_ball vc \<Longrightarrow> scene_holds_ball (set_ball v vc)"
  by (auto simp: scene_holds_ball_def set_ball_children set_ball_fields split: option.splits)

lemma assign_all_invariant: "scene_holds_ball vc \<Longrightarrow> scene_holds_ball (assign_all vs vc)"
  by (induction vs arbitrary: vc) (simp_all add: set_ball_invariant)

lemma scene_holds_ball_length: "scene_holds_ball vc \<Longrightarrow> length (scene_children vc) \<le> 1"
  by (simp add: scene_holds_ball_def split: option.split)

lemma scene_holds_ball_cong:
  "scene_children vc' = scene_children vc \<Longrightarrow> ball' vc' = ball' vc \<Longrightarrow>
   scene_holds_ball vc' = scene_holds_ball vc"
  by (simp add: scene_holds_ball_def)

subsection \<open>Launch\<close>





lemma launch_no_screen: "screen_frame vc = None \<Longrightarrow> launch c1 c2 rct vc = vc"
  by (simp add: launch_def)

lemma launch_fields:
  assumes "screen_frame vc = Some frame"
  shows "physicsQueue (launch c1 c2 rct vc) =
           physicsQueue vc @ [apply_impulse (length (balls vc)) (launch_impulse rct frame)]"
    and "ball' (launch c1 c2 rct vc) = Some (length (balls vc))"
    and "length (balls (launch c1 c2 rct vc)) = Suc (length (balls vc))"
    and "scene_children (launch c1 c2 rct vc) =
           scene_children (set_ball (Some (length (balls vc))) vc)"
  using assms
  by (simp_all add: launch_def Let_def update_ball_fields set_ball_fields set_ball_children
        split: prod.split option.split)

lemma launch_invariant:
  assumes "scene_holds_ball vc"
  shows "scene_holds_ball (launch c1 c2 rct vc)"
proof (cases "screen_frame vc")
  case None
  with assms show ?thesis by (simp add: launch_no_screen)
next
  case (Some frame)
  have "scene_holds_ball (launch c1 c2 rct vc) =
          scene_holds_ball (set_ball (Some (length (balls vc))) vc)"
    by (rule scene_holds_ball_cong) (simp_all add: launch_fields [OF Some] set_ball_fields)
  with assms show ?thesis by (simp add: set_ball_invariant)
qed

lemma launch_refs_valid: "refs_valid vc \<Longrightarrow> refs_valid (launch c1 c2 rct vc)"
proof (cases "screen_frame vc")
  case None
  then show "refs_valid vc \<Longrightarrow> refs_valid (launch c1 c2 rct vc)"
    by (simp add: launch_no_screen)
next
  case (Some frame)
  show "refs_valid (launch c1 c2 rct vc)"
    by (simp add: refs_valid_def launch_fields [OF Some])
qed





lemma controller_init_fields:
  "screen_frame controller_init = Some screen_1440" "refs_valid controller_init"
  "physicsQueue controller_init = []" "length (balls controller_init) = 0"
  "ball' controller_init = None" "scene_holds_ball controller_init"
  "called controller_init = []"
  by (simp_all add: controller_init_def refs_valid_def scene_holds_ball_def)





subsection \<open>Dock\<close>

text \<open>
  C7. When the controller has no ball, \<open>dock(rect, cb)\<close> returns the controller as it
  was but for one more call of \<open>cb\<close>, made within \<open>dock\<close>: no ball is created, the scene
  is not touched, and no action or later callback is left behind.
\<close>

theorem dock_without_ball:
  assumes "ball' vc = None"
  shows "dock rct cb vc = vc\<lparr>called := called vc @ [cb]\<rparr>
    \<and> count_list (called (dock rct cb vc)) cb = count_list (called vc) cb + 1
    \<and> balls (dock rct cb vc) = balls vc
    \<and> scene_children (dock rct cb vc) = scene_children vc
    \<and> ball' (dock rct cb vc) = None"
  using assms by (simp add: dock_def)

text \<open>The controller before any launch, docked with the callback 7.\<close>

theorem dock_without_ball_witness:
  "ball' controller_init = None
   \<and> dock dock_icon 7 controller_init = controller_init\<lparr>called := [7]\<rparr>
   \<and> count_list (called (dock dock_icon 7 controller_init)) 7 = 1
   \<and> balls (dock dock_icon 7 controller_init) = []
   \<and> scene_children (dock dock_icon 7 controller_init) = []"
  using dock_without_ball [OF controller_init_fields(5), of dock_icon 7]
  by (simp add: controller_init_fields) (simp add: controller_init_def)

lemma dock_invariant: "scene_holds_ball vc \<Longrightarrow> scene_holds_ball (dock rct cb vc)"
  by (simp add: dock_def scene_holds_ball_def update_ball_fields Let_def split: option.split)

lemma dock_completion_invariant:
  "scene_holds_ball vc \<Longrightarrow> scene_holds_ball (dock_completion cb vc)"
  using set_ball_invariant [of vc None]
  by (simp add: dock_completion_def scene_holds_ball_def Let_def)

lemma dock_refs_valid: "refs_valid vc \<Longrightarrow> refs_valid (dock rct cb vc)"
  by (auto simp: dock_def refs_valid_def update_ball_fields Let_def split: option.splits)

lemma dock_completion_refs_valid: "refs_valid (dock_completion cb vc)"
  by (simp add: dock_completion_def refs_valid_def set_ball_fields Let_def)

subsection \<open>The ball of the controller\<close>

text \<open>
  C10. The scene holds the ball of the controller and nothing else when the controller
  is created, and \<open>launch\<close>, \<open>dock\<close> and the completion of \<open>dock\<close> keep it so (the lemmas
  above). From such a state, an assignment of \<open>v\<close> to \<open>ball\<close> leaves \<open>v\<close> as the ball; the
  scene then holds \<open>v\<close> alone if it is defined and nothing otherwise, so at most one ball;
  the ball held before is destroyed (its physics body cleared) and is no longer in the
  scene, unless it is the one assigned; assigning \<open>undefined\<close> leaves no ball and an empty
  scene; and after any sequence of assignments the scene holds at most one ball.
\<close>

theorem set_ball_single:
  assumes "scene_holds_ball vc"
  shows "ball' (set_ball v vc) = v
    \<and> scene_children (set_ball v vc) = (case v of None \<Rightarrow> [] | Some r \<Rightarrow> [r])
    \<and> length (scene_children (set_ball v vc)) \<le> 1
    \<and> (\<forall>old. ball' vc = Some old \<and> old < length (balls vc)
          \<longrightarrow> physicsBody (balls (set_ball v vc) ! old) = None)
    \<and> (\<forall>old. ball' vc = Some old \<and> v \<noteq> Some old
          \<longrightarrow> old \<notin> set (scene_children (set_ball v vc)))
    \<and> scene_children (set_ball None vc) = [] \<and> ball' (set_ball None vc) = None
    \<and> length (scene_children (assign_all vs vc)) \<le> 1"
proof -
  from assms have i: "scene_holds_ball (set_ball v vc)" by (rule set_ball_invariant)
  then have c: "scene_children (set_ball v vc) = (case v of None \<Rightarrow> [] | Some r \<Rightarrow> [r])"
    by (simp add: scene_holds_ball_def set_ball_fields)
  from i have l: "length (scene_children (set_ball v vc)) \<le> 1" by (rule scene_holds_ball_length)
  from assms have n: "scene_holds_ball (set_ball None vc)" by (rule set_ball_invariant)
  then have cn: "scene_children (set_ball None vc) = []"
    by (simp add: scene_holds_ball_def set_ball_fields)
  from assms have "scene_holds_ball (assign_all vs vc)" by (rule assign_all_invariant)
  then have a: "length (scene_children (assign_all vs vc)) \<le> 1" by (rule scene_holds_ball_length)
  have o: "\<forall>old. ball' vc = Some old \<and> v \<noteq> Some old
      \<longrightarrow> old \<notin> set (scene_children (set_ball v vc))"
    unfolding c by (auto split: option.split)
  have d: "\<forall>old. ball' vc = Some old \<and> old < length (balls vc)
          \<longrightarrow> physicsBody (balls (set_ball v vc) ! old) = None"
    by (simp add: set_ball_destroys)
  have b: "ball' (set_ball v vc) = v" "ball' (set_ball None vc) = None"
    by (simp_all add: set_ball_fields)
  from b c l d o cn a show ?thesis by blast
qed

lemma controller_launched_fields:
  "scene_holds_ball controller_launched" "ball' controller_launched = Some 0"
  "0 < length (balls controller_launched)" "scene_children controller_launched = [0]"
proof -
  show "scene_holds_ball controller_launched"
    unfolding controller_launched_def
    by (rule launch_invariant) (rule controller_init_fields)
  show b: "ball' controller_launched = Some 0"
    unfolding controller_launched_def
    by (simp add: launch_fields [OF controller_init_fields(1)] controller_init_fields)
  show "0 < length (balls controller_launched)"
    unfolding controller_launched_def
    by (simp add: launch_fields [OF controller_init_fields(1)])
  from \<open>scene_holds_ball controller_launched\<close> b
  show "scene_children controller_launched = [0]"
    by (simp add: scene_holds_ball_def)
qed

text \<open>
  After a launch the scene holds the ball 0. Assigning \<open>undefined\<close> destroys it and
  empties the scene; assigning it, \<open>undefined\<close> and it again leaves at most one ball.
\<close>

theorem set_ball_single_witness:
  "scene_holds_ball controller_launched
   \<and> scene_children controller_launched = [0]
   \<and> ball' controller_launched = Some 0 \<and> 0 < length (balls controller_launched)
   \<and> None \<noteq> Some (0::nat)
   \<and> ball' (set_ball None controller_launched) = None
   \<and> scene_children (set_ball None controller_launched) = []
   \<and> physicsBody (balls (set_ball None controller_launched) ! 0) = None
   \<and> 0 \<notin> set (scene_children (set_ball None controller_launched))
   \<and> length (scene_children (assign_all [Some 0, None, Some 0] controller_launched)) \<le> 1"
proof -
  note h = controller_launched_fields
  from set_ball_single [OF h(1), of None "[Some 0, None, Some 0]"] h
  show ?thesis by auto
qed

subsection \<open>Collision sounds\<close>

lemma collisionStrength_eq:
  "collisionStrength i = min (max ((i - 1000) / 1000 * 0.5) 0) 0.5"
  by (simp add: collisionStrength_def remap_def remap_flag_def Let_def)

lemma random_index:
  assumes "0 \<le> rnd" and "rnd < 1" and "0 < n"
  shows "nat \<lfloor>rnd * real n\<rfloor> < n"
proof -
  from assms have "rnd * real n < real n" by simp
  then have "\<lfloor>rnd * real n\<rfloor> < int n" by (simp add: floor_less_iff)
  with assms show ?thesis by simp
qed

lemma soundsUsable_nth:
  assumes "j < length (soundsUsable ss)"
  shows "soundsUsable ss ! j < length ss \<and> \<not> isPlaying (ss ! (soundsUsable ss ! j))"
proof -
  from assms have "soundsUsable ss ! j \<in> set (soundsUsable ss)" by simp
  then show ?thesis by (simp add: soundsUsable_def)
qed

lemma run_main_operation_busy:
  "soundsUsable (sounds vc) = [] \<Longrightarrow> run_main_operation rnd (collision_sound s) vc = vc"
  by simp

lemma run_main_operation_idle:
  assumes "0 \<le> rnd" and "rnd < 1" and "soundsUsable (sounds vc) \<noteq> []"
  shows "\<exists>k < length (sounds vc). \<not> isPlaying (sounds vc ! k)
          \<and> run_main_operation rnd (collision_sound s) vc =
              vc\<lparr>sounds := (sounds vc)[k := (sounds vc ! k)\<lparr>volume := s, isPlaying := True\<rparr>]\<rparr>"
proof -
  let ?u = "soundsUsable (sounds vc)"
  let ?j = "nat \<lfloor>rnd * real (length ?u)\<rfloor>"
  from assms have "?j < length ?u" by (intro random_index) simp_all
  then have "?u ! ?j < length (sounds vc) \<and> \<not> isPlaying (sounds vc ! (?u ! ?j))"
    by (rule soundsUsable_nth)
  moreover have "run_main_operation rnd (collision_sound s) vc =
      vc\<lparr>sounds := (sounds vc)[?u ! ?j := (sounds vc ! (?u ! ?j))\<lparr>volume := s, isPlaying := True\<rparr>]\<rparr>"
    using assms(3) by (simp add: Let_def play_def)
  ultimately show ?thesis by blast
qed

text \<open>
  C6. The strength of a contact is its collision impulse mapped linearly from 1000..2000
  to 0..0.5 and clamped to that range. An impulse below 1000 gives a strength that is not
  positive, and \<open>didBeginContact\<close> then does nothing, as for every strength that is not
  positive. An impulse of 1500 gives 0.25, an impulse of 2000 or more gives 0.5. For a
  positive strength \<open>didBeginContact\<close> queues one operation on the main queue, with that
  strength. When the operation runs and no sound is idle, nothing changes; when some
  sound is idle, one sound that was idle gets the strength as its volume and is started,
  and nothing else changes.
\<close>

theorem collision_sound_strength:
  "collisionStrength i = min (max ((i - 1000) / 1000 * 0.5) 0) 0.5
   \<and> (i < 1000 \<longrightarrow> collisionStrength i \<le> 0 \<and> didBeginContact i vc = vc)
   \<and> collisionStrength 1500 = 0.25
   \<and> (2000 \<le> i \<longrightarrow> collisionStrength i = 0.5)
   \<and> (collisionStrength i \<le> 0 \<longrightarrow> didBeginContact i vc = vc)
   \<and> (0 < collisionStrength i \<longrightarrow>
        didBeginContact i vc =
          vc\<lparr>mainQueue := mainQueue vc @ [collision_sound (collisionStrength i)]\<rparr>)
   \<and> (soundsUsable (sounds vc) = [] \<longrightarrow> run_main_operation rnd (collision_sound s) vc = vc)
   \<and> (0 \<le> rnd \<and> rnd < 1 \<and> soundsUsable (sounds vc) \<noteq> [] \<longrightarrow>
        (\<exists>k < length (sounds vc). \<not> isPlaying (sounds vc ! k)
          \<and> run_main_operation rnd (collision_sound s) vc =
              vc\<lparr>sounds := (sounds vc)[k := (sounds vc ! k)\<lparr>volume := s, isPlaying := True\<rparr>]\<rparr>))"
proof -
  have a: "i < 1000 \<longrightarrow> collisionStrength i \<le> 0 \<and> didBeginContact i vc = vc"
    by (simp add: didBeginContact_def collisionStrength_eq)
  have b: "collisionStrength 1500 = 0.25"
    by (simp add: collisionStrength_eq)
  have c: "2000 \<le> i \<longrightarrow> collisionStrength i = 0.5"
    by (simp add: collisionStrength_eq)
  have d: "collisionStrength i \<le> 0 \<longrightarrow> didBeginContact i vc = vc"
    by (simp add: didBeginContact_def)
  have e: "0 < collisionStrength i \<longrightarrow>
        didBeginContact i vc =
          vc\<lparr>mainQueue := mainQueue vc @ [collision_sound (collisionStrength i)]\<rparr>"
    by (simp add: didBeginContact_def)
  from a b c d e collisionStrength_eq run_main_operation_busy run_main_operation_idle
  show ?thesis by blast
qed

lemma controller_sounds:
  "soundsUsable (sounds controller_busy) = []"
  "soundsUsable (sounds controller_init) = [1, 2]"
  by (simp_all add: soundsUsable_def controller_busy_def controller_init_def upt_rec)

lemma strength_values:
  "collisionStrength 500 = 0" "collisionStrength 2500 = 1 / 2"
  by (simp_all add: collisionStrength_eq)

text \<open>
  A contact of impulse 500 while every sound plays, and a contact of impulse 2500 while
  the second and the third sound are idle, with \<open>Math.random()\<close> giving 1/2.
\<close>

theorem collision_sound_strength_witness:
  "(500::real) < 1000 \<and> collisionStrength 500 \<le> 0
   \<and> didBeginContact 500 controller_busy = controller_busy
   \<and> soundsUsable (sounds controller_busy) = []
   \<and> run_main_operation (1 / 2) (collision_sound (1 / 2)) controller_busy = controller_busy
   \<and> (2000::real) \<le> 2500 \<and> collisionStrength 2500 = 1 / 2 \<and> 0 < collisionStrength 2500
   \<and> didBeginContact 2500 controller_init =
       controller_init\<lparr>mainQueue := mainQueue controller_init @ [collision_sound (1 / 2)]\<rparr>
   \<and> (0::real) \<le> 1 / 2 \<and> (1 / 2 :: real) < 1 \<and> soundsUsable (sounds controller_init) \<noteq> []
   \<and> (\<exists>k < length (sounds controller_init). \<not> isPlaying (sounds controller_init ! k)
        \<and> run_main_operation (1 / 2) (collision_sound (1 / 2)) controller_init =
            controller_init\<lparr>sounds := (sounds controller_init)
              [k := (sounds controller_init ! k)\<lparr>volume := 1 / 2, isPlaying := True\<rparr>]\<rparr>)"
proof -
  have h: "(500::real) < 1000" "collisionStrength 500 \<le> 0" "(2000::real) \<le> 2500"
    "0 < collisionStrength 2500" "(0::real) \<le> 1 / 2" "(1 / 2 :: real) < 1"
    "soundsUsable (sounds controller_busy) = []" "soundsUsable (sounds controller_init) \<noteq> []"
    by (simp_all add: strength_values controller_sounds)
  from h collision_sound_strength [of 500 controller_busy "1 / 2" "1 / 2"]
    collision_sound_strength [of 2500 controller_init "1 / 2" "1 / 2"]
  show ?thesis unfolding strength_values by blast
qed

end
